theory Spec2Isabelle
  imports Complex_Main
begin

section \<open>Evaluation of the model on a data loader\<close>

text \<open>
  The exceptions that the notebook's training code can meet. \<open>ZeroDivisionError\<close> is
  raised by the unguarded division at the end of \<open>test_func\<close>; \<open>IndexError\<close> by
  \<open>target.size(0)\<close> on a tensor without dimensions; \<open>RuntimeError\<close> by the comparison
  of two tensors whose shapes cannot be broadcast; \<open>FileExistsError\<close> by \<open>tempfile\<close>
  when no unused directory name is found; \<open>AttributeError\<close> by reading
  \<open>model.module\<close> on a module without such a child; \<open>FileNotFoundError\<close> by an access
  to a local directory that does not exist; \<open>UploadFailure\<close> is the reporter's failure
  to write to durable storage.
\<close>

datatype error =
  ZeroDivisionError | IndexError | RuntimeError | FileExistsError | FileNotFoundError
  | AttributeError | UploadFailure

subsection \<open>Tensors and the broadcast comparison\<close>

text \<open>
  A tensor: its shape and its elements in row-major order. A tensor that the code can
  hold has as many elements as its shape says (\<open>tensor_ok\<close>); \<open>numel\<close> is that number.
\<close>

record 'a tensor =
  shape :: "nat list"
  elems :: "'a list"

definition tensor_ok :: "'a tensor \<Rightarrow> bool" where
  "tensor_ok t \<longleftrightarrow> length (elems t) = prod_list (shape t)"

definition numel :: "'a tensor \<Rightarrow> nat" where
  "numel t = prod_list (shape t)"

text \<open>\<open>t.size(0)\<close>: the first dimension, \<open>IndexError\<close> for a tensor without dimensions.\<close>

definition size0 :: "'a tensor \<Rightarrow> error + nat" where
  "size0 t = (case shape t of [] \<Rightarrow> Inl IndexError | n # ds \<Rightarrow> Inr n)"

text \<open>
  The shape that two shapes broadcast to, on the shapes read from the last dimension
  backwards: two sizes go together when they are equal or one of them is 1, and a missing
  dimension goes with any size.
\<close>

fun broadcast_rev :: "nat list \<Rightarrow> nat list \<Rightarrow> nat list option" where
  "broadcast_rev [] ys = Some ys"
| "broadcast_rev (x # xs) [] = Some (x # xs)"
| "broadcast_rev (x # xs) (y # ys) =
     (if x = y \<or> x = 1 \<or> y = 1
      then map_option (\<lambda>ds. (if x = 1 then y else x) # ds) (broadcast_rev xs ys)
      else None)"

definition broadcast_shape :: "nat list \<Rightarrow> nat list \<Rightarrow> nat list option" where
  "broadcast_shape a b = map_option rev (broadcast_rev (rev a) (rev b))"

text \<open>All indices of a tensor of the given shape, in row-major order.\<close>

fun all_indices :: "nat list \<Rightarrow> nat list list" where
  "all_indices [] = [[]]"
| "all_indices (d # ds) =
     concat (map (\<lambda>i. map (\<lambda>idx. i # idx) (all_indices ds)) [0..<d])"

text \<open>The place of an index in the row-major list of elements.\<close>

fun offset :: "nat list \<Rightarrow> nat list \<Rightarrow> nat" where
  "offset (d # ds) (i # idx) = i * prod_list ds + offset ds idx"
| "offset ds idx = 0"

text \<open>
  The element of a tensor that broadcasting puts at an index of the result: the index
  is cut to the tensor's own dimensions, and a dimension of size 1 is read at 0.
\<close>

definition expand_index :: "nat list \<Rightarrow> nat list \<Rightarrow> nat list" where
  "expand_index s idx =
     map2 (\<lambda>d i. if d = 1 then 0 else i) s (drop (length idx - length s) idx)"

definition item_at :: "'a tensor \<Rightarrow> nat list \<Rightarrow> 'a" where
  "item_at t idx = elems t ! offset (shape t) (expand_index (shape t) idx)"

text \<open>
  \<open>(a == b).sum().item()\<close>: the two tensors are broadcast to a common shape
  (\<open>RuntimeError\<close> when there is none), and the positions of that shape where they
  agree are counted.
\<close>

definition eq_sum :: "'a tensor \<Rightarrow> 'a tensor \<Rightarrow> error + nat" where
  "eq_sum a b =
     (case broadcast_shape (shape a) (shape b) of
        None \<Rightarrow> Inl RuntimeError
      | Some sh \<Rightarrow>
          Inr (length (filter (\<lambda>idx. item_at a idx = item_at b idx) (all_indices sh))))"

subsection \<open>\<open>test_func\<close>\<close>

text \<open>
  A batch \<open>(data, target)\<close> as the data loader yields it: the data, and the tensor of
  the labels, of whatever shape the dataset gives it.
\<close>

type_synonym 'x batch = "'x \<times> int tensor"

text \<open>
  The loop of \<open>test_func\<close> over the batches, on the counters \<open>(correct, total)\<close>
  (\<open>total\<close> is written \<open>seen\<close>). \<open>model\<close> gives \<open>predicted\<close> for the data of a batch:
  the forward pass followed by \<open>torch.max(outputs.data, 1)\<close>, the index of the largest
  score of each sample. Then \<open>total += target.size(0)\<close> and
  \<open>correct += (predicted == target).sum().item()\<close>; nothing ties the shape of
  \<open>target\<close> to that of \<open>predicted\<close>. \<open>model.eval()\<close> and \<open>torch.no_grad()\<close> change
  no counter.
\<close>

fun test_counts ::
  "('x \<Rightarrow> int tensor) \<Rightarrow> 'x batch list \<Rightarrow> nat \<times> nat \<Rightarrow> error + nat \<times> nat" where
  "test_counts model [] (correct, seen) = Inr (correct, seen)"
| "test_counts model ((data, target) # bs) (correct, seen) =
     (let predicted = model data in
      case size0 target of
        Inl e \<Rightarrow> Inl e
      | Inr n \<Rightarrow>
          (case eq_sum predicted target of
             Inl e \<Rightarrow> Inl e
           | Inr c \<Rightarrow> test_counts model bs (correct + c, seen + n)))"

text \<open>
  \<open>return correct / total\<close>: Python's true division of two integers, which raises
  \<open>ZeroDivisionError\<close> when \<open>total\<close> is 0. The quotient is kept exact, as a rational.
\<close>

definition test_func :: "('x \<Rightarrow> int tensor) \<Rightarrow> 'x batch list \<Rightarrow> error + rat" where
  "test_func model data_loader =
     (case test_counts model data_loader (0, 0) of
        Inl e \<Rightarrow> Inl e
      | Inr (correct, seen) \<Rightarrow>
          if seen = 0 then Inl ZeroDivisionError
          else Inr (of_nat correct / of_nat seen))"

text \<open>
  The shapes of a classification batch: the target is one-dimensional, one label per
  sample, and \<open>predicted\<close> has the same shape.
\<close>

definition one_label_per_sample :: "'a tensor \<Rightarrow> 'a tensor \<Rightarrow> bool" where
  "one_label_per_sample predicted target \<longleftrightarrow>
     length (shape target) = 1 \<and> shape predicted = shape target"

section \<open>Modules and their state dicts\<close>

text \<open>
  A \<open>torch.nn.Module\<close> as the notebook uses it: its own parameters and buffers by name,
  and its child modules by name, both in registration order. \<open>'v\<close> is the type of the
  tensors.
\<close>

datatype 'v module =
  Module (params: "(string \<times> 'v) list") (children: "(string \<times> 'v module) list")

text \<open>
  \<open>Module.state_dict(prefix=...)\<close>: the module's own entries under \<open>prefix + name\<close>,
  then each child's entries under \<open>prefix + child_name + '.'\<close>.
\<close>

fun state_dict_from :: "string \<Rightarrow> 'v module \<Rightarrow> (string \<times> 'v) list" where
  "state_dict_from prefix (Module ps cs) =
     map (\<lambda>(k, v). (prefix @ k, v)) ps @
     concat (map (\<lambda>(name, c). state_dict_from (prefix @ name @ ''.'') c) cs)"

definition state_dict :: "'v module \<Rightarrow> (string \<times> 'v) list" where
  "state_dict m = state_dict_from [] m"

text \<open>
  \<open>torch.nn.Conv2d(1, 64, kernel_size=(7, 7), stride=(2, 2), padding=(3, 3), bias=False)\<close>:
  a module whose only parameter is \<open>weight\<close>.
\<close>

definition Conv2d :: "'v \<Rightarrow> 'v module" where
  "Conv2d w = Module [(''weight'', w)] []"

text \<open>
  \<open>model.conv1 = ...\<close>: assigning a module to an attribute registers it as the child of
  that name, in the place of a child of the same name when there is one and after the
  other children otherwise, and removes a parameter of that name.
\<close>

definition set_child :: "string \<Rightarrow> 'v module \<Rightarrow> 'v module \<Rightarrow> 'v module" where
  "set_child name c m =
     Module (filter (\<lambda>(k, v). k \<noteq> name) (params m))
       (if name \<in> fst ` set (children m)
        then map (\<lambda>(k, old). if k = name then (k, c) else (k, old)) (children m)
        else children m @ [(name, c)])"

text \<open>
  \<open>DistributedDataParallel(model)\<close> keeps the wrapped model as its only child, named
  \<open>module\<close>, and has no parameter of its own.
\<close>

definition DistributedDataParallel :: "'v module \<Rightarrow> 'v module" where
  "DistributedDataParallel m = Module [] [(''module'', m)]"

text \<open>
  \<open>ray.train.torch.prepare_model(model)\<close> for a worker of a group of \<open>world_size\<close>
  workers: with more than one worker the model is wrapped in \<open>DistributedDataParallel\<close>
  (the notebook's run on 4 workers logs "Wrapping provided model in
  DistributedDataParallel"), with one worker it is returned as it is.
\<close>

definition prepare_model :: "nat \<Rightarrow> 'v module \<Rightarrow> 'v module" where
  "prepare_model world_size m =
     (if world_size > 1 then DistributedDataParallel m else m)"



section \<open>Workers, configuration and the state of the surroundings\<close>

text \<open>
  What \<open>ray.train.get_context()\<close> tells a worker: \<open>get_world_rank()\<close> and
  \<open>get_world_size()\<close>.
\<close>

record worker_context =
  world_rank :: nat
  world_size :: nat

text \<open>
  \<open>ray.train.RunConfig(storage_path=..., name=...)\<close>. The notebook sets no retention;
  \<open>retention_count\<close> is the spec's field of that name, \<open>None\<close> when it is not set (all
  checkpoints are kept).
\<close>

record run_config =
  storage_path :: string
  run_name :: string
  retention_count :: "nat option"

text \<open>
  The values of a metrics dict: the accuracy is a Python float (the exact quotient here),
  the epoch a Python int. The dict \<open>{"acc": acc, "epoch": epoch}\<close> keeps its insertion
  order.
\<close>

datatype scalar = FloatV rat | IntV int

type_synonym metrics = "(string \<times> scalar) list"

text \<open>
  A local directory is a map from file names to contents; the only files written are
  state dicts saved by \<open>torch.save\<close>.
\<close>

type_synonym 'v directory = "string \<rightharpoonup> (string \<times> 'v) list"

text \<open>
  A checkpoint in durable storage: the path segments
  \<open>storage_path / run_name / checkpoint_<index>\<close> and the files under it.
\<close>

record 'v checkpoint =
  ckpt_root :: string
  ckpt_run :: string
  ckpt_index :: nat
  ckpt_files :: "'v directory"

text \<open>
  The state that the training function acts on: the worker's local file system (its
  directories), durable storage (the run's checkpoints, oldest first), the reporter's
  record store (metrics by rank, in the order of the calls), the index of the next
  checkpoint, the lines printed, and the epoch of the training loader's sampler.
\<close>

record 'v state =
  local_fs :: "string \<rightharpoonup> 'v directory"
  durable :: "'v checkpoint list"
  records :: "(nat \<times> metrics) list"
  next_index :: nat
  stdout :: "metrics list"
  sampler_epoch :: nat

section \<open>The metrics and checkpoint reporter\<close>

text \<open>
  Modelled from the spec: the retention policy of the reporter, which is part of Ray Train
  and not of the notebook. "After each successful upload, if the number of retained
  checkpoints for the run exceeds \<open>retention_count\<close>, deletes the oldest beyond that
  count."
\<close>

definition prune :: "nat option \<Rightarrow> 'a list \<Rightarrow> 'a list" where
  "prune k cs = (case k of None \<Rightarrow> cs | Some n \<Rightarrow> drop (length cs - n) cs)"

text \<open>
  Modelled from the spec: \<open>ray.train.report(metrics, checkpoint=...)\<close>, which is part of
  Ray Train and not of the notebook (section 4.5 of the spec, and the notebook's Checkpoint
  section). The call records \<open>metrics\<close> under the calling worker's rank. With a
  checkpoint, a handle on a local directory, it uploads the directory's files to
  \<open>storage_path / run_name / checkpoint_<index>\<close>, deletes the local directory, and
  enforces the retention policy. \<open>index\<close> counts the run's uploads from 0: the notebook
  reports one checkpoint per epoch, so it is the epoch, as in the run's log
  (\<open>checkpoint_000000\<close> to \<open>checkpoint_000009\<close>). \<open>ack\<close> tells whether durable storage
  acknowledged the write (within the bounded retries); without it the call fails with
  \<open>UploadFailure\<close>.
\<close>

definition report ::
  "run_config \<Rightarrow> bool \<Rightarrow> nat \<Rightarrow> metrics \<Rightarrow> string option \<Rightarrow> 'v state \<Rightarrow> error + 'v state" where
  "report cfg ack rank m checkpoint s =
     (let s1 = s\<lparr>records := records s @ [(rank, m)]\<rparr> in
      case checkpoint of
        None \<Rightarrow> Inr s1
      | Some dir \<Rightarrow>
          (case local_fs s1 dir of
             None \<Rightarrow> Inl FileNotFoundError
           | Some files \<Rightarrow>
               if \<not> ack then Inl UploadFailure
               else Inr (s1\<lparr>durable :=
                              prune (retention_count cfg)
                                (durable s1 @
                                   [\<lparr>ckpt_root = storage_path cfg, ckpt_run = run_name cfg,
                                     ckpt_index = next_index s1, ckpt_files = files\<rparr>]),
                            next_index := Suc (next_index s1),
                            local_fs := (local_fs s1)(dir := None)\<rparr>)))"

text \<open>
  A run's uploads, one after the other: each call is made by a worker of some rank with
  its metrics, on a checkpoint that the worker has staged in a local directory (the
  directory and its files), and is acknowledged or not. The first failing call ends the
  sequence, as the exception would.
\<close>

fun upload_all ::
  "run_config \<Rightarrow> (nat \<times> metrics \<times> string \<times> 'v directory \<times> bool) list \<Rightarrow> 'v state
     \<Rightarrow> error + 'v state" where
  "upload_all cfg [] s = Inr s"
| "upload_all cfg ((rank, m, dir, files, ack) # calls) s =
     (case report cfg ack rank m (Some dir) (s\<lparr>local_fs := (local_fs s)(dir \<mapsto> files)\<rparr>) of
        Inl e \<Rightarrow> Inl e
      | Inr s' \<Rightarrow> upload_all cfg calls s')"

text \<open>The checkpoints that a sequence of calls uploads, the first with index \<open>i\<close>.\<close>

fun uploaded ::
  "run_config \<Rightarrow> nat \<Rightarrow> (nat \<times> metrics \<times> string \<times> 'v directory \<times> bool) list
     \<Rightarrow> 'v checkpoint list" where
  "uploaded cfg i [] = []"
| "uploaded cfg i ((rank, m, dir, files, ack) # calls) =
     \<lparr>ckpt_root = storage_path cfg, ckpt_run = run_name cfg,
      ckpt_index = i, ckpt_files = files\<rparr> # uploaded cfg (Suc i) calls"

section \<open>The training function \<open>train_loop\<close>\<close>

text \<open>
  The numerics that PyTorch and torchvision supply, as parameters: the \<open>resnet18\<close> model
  and the weight of the new first layer, the Adam optimizer built from the model's
  parameters, one iteration of the training loop (forward pass, loss, \<open>zero_grad\<close>,
  \<open>backward\<close>, \<open>optimizer.step\<close>) on the model and the optimizer, and the classes that
  the model predicts for the data of a batch (\<open>predicted\<close> in \<open>test_func\<close>).
\<close>

record ('x, 'v, 'o) torch_ops =
  resnet18 :: "'v module"
  conv1_weight :: 'v
  adam :: "'v module \<Rightarrow> 'o"
  train_step :: "'v module \<Rightarrow> 'o \<Rightarrow> 'x batch \<Rightarrow> 'v module \<times> 'o"
  classify :: "'v module \<Rightarrow> 'x \<Rightarrow> int tensor"

text \<open>
  What the worker's surroundings give in each epoch: the batches that the prepared
  training loader yields (they depend on the epoch of its sampler and, through the random
  generator, on the pass), the batches that the prepared test loader yields, the
  directory names that \<open>tempfile\<close> draws, and whether durable storage acknowledges the
  upload.
\<close>

record 'x surroundings =
  train_batches :: "nat \<Rightarrow> nat \<Rightarrow> 'x batch list"
  test_batches :: "nat \<Rightarrow> 'x batch list"
  tmp_names :: "nat \<Rightarrow> string list"
  upload_ack :: "nat \<Rightarrow> bool"

text \<open>\<open>train_func\<close>: one pass over the training loader, updating model and optimizer.\<close>

fun train_func ::
  "('x, 'v, 'o) torch_ops \<Rightarrow> 'v module \<times> 'o \<Rightarrow> 'x batch list \<Rightarrow> 'v module \<times> 'o" where
  "train_func ops (model, optimizer) [] = (model, optimizer)"
| "train_func ops (model, optimizer) (b # bs) =
     train_func ops (train_step ops model optimizer b) bs"

text \<open>
  \<open>tempfile.TemporaryDirectory()\<close> on entry: the first drawn name that is not in use is
  created as an empty directory; \<open>FileExistsError\<close> when every drawn name is in use.
\<close>

definition mkdtemp :: "string list \<Rightarrow> 'v state \<Rightarrow> error + (string \<times> 'v state)" where
  "mkdtemp names s =
     (case find (\<lambda>d. local_fs s d = None) names of
        None \<Rightarrow> Inl FileExistsError
      | Some d \<Rightarrow> Inr (d, s\<lparr>local_fs := (local_fs s)(d \<mapsto> Map.empty)\<rparr>))"

text \<open>\<open>torch.save(obj, os.path.join(dir, file))\<close>.\<close>

definition torch_save ::
  "(string \<times> 'v) list \<Rightarrow> string \<Rightarrow> string \<Rightarrow> 'v state \<Rightarrow> error + 'v state" where
  "torch_save obj dir file s =
     (case local_fs s dir of
        None \<Rightarrow> Inl FileNotFoundError
      | Some files \<Rightarrow> Inr (s\<lparr>local_fs := (local_fs s)(dir \<mapsto> files(file \<mapsto> obj))\<rparr>))"

text \<open>
  The exit of the \<open>with\<close> block: the temporary directory is removed with all its files;
  nothing happens when it is gone already.
\<close>

definition cleanup :: "string \<Rightarrow> 'v state \<Rightarrow> 'v state" where
  "cleanup dir s = s\<lparr>local_fs := (local_fs s)(dir := None)\<rparr>"

text \<open>
  The \<open>with tempfile.TemporaryDirectory() as temp_checkpoint_dir\<close> block of
  \<open>train_loop\<close>: save the model's state dict as \<open>model.pt\<close> in the temporary directory,
  report the metrics with a checkpoint made from that directory, leave the block.
\<close>

definition save_and_report ::
  "run_config \<Rightarrow> bool \<Rightarrow> string list \<Rightarrow> nat \<Rightarrow> 'v module \<Rightarrow> metrics \<Rightarrow> 'v state
     \<Rightarrow> error + 'v state" where
  "save_and_report cfg ack names rank model m s =
     (case mkdtemp names s of
        Inl e \<Rightarrow> Inl e
      | Inr (temp_checkpoint_dir, s1) \<Rightarrow>
          (case torch_save (state_dict model) temp_checkpoint_dir ''model.pt'' s1 of
             Inl e \<Rightarrow> Inl e
           | Inr s2 \<Rightarrow>
               (case report cfg ack rank m (Some temp_checkpoint_dir) s2 of
                  Inl e \<Rightarrow> Inl e
                | Inr s3 \<Rightarrow> Inr (cleanup temp_checkpoint_dir s3))))"

text \<open>The dict \<open>{"acc": acc, "epoch": epoch}\<close>.\<close>

definition metrics_of :: "rat \<Rightarrow> nat \<Rightarrow> metrics" where
  "metrics_of acc epoch = [(''acc'', FloatV acc), (''epoch'', IntV (int epoch))]"

text \<open>
  The body of the loop \<open>for epoch in range(10)\<close>, on the model with its optimizer and
  the state.
\<close>

fun epoch_body ::
  "('x, 'v, 'o) torch_ops \<Rightarrow> 'x surroundings \<Rightarrow> run_config \<Rightarrow> worker_context \<Rightarrow> nat
     \<Rightarrow> ('v module \<times> 'o) \<times> 'v state \<Rightarrow> error + (('v module \<times> 'o) \<times> 'v state)" where
  "epoch_body ops env cfg ctx epoch (mo, s) =
     (let s1 = (if world_size ctx > 1 then s\<lparr>sampler_epoch := epoch\<rparr> else s);
          mo' = train_func ops mo (train_batches env (sampler_epoch s1) epoch)
      in (case test_func (classify ops (fst mo')) (test_batches env epoch) of
            Inl e \<Rightarrow> Inl e
          | Inr acc \<Rightarrow>
              (case save_and_report cfg (upload_ack env epoch) (tmp_names env epoch)
                      (world_rank ctx) (fst mo') (metrics_of acc epoch) s1 of
                 Inl e \<Rightarrow> Inl e
               | Inr s2 \<Rightarrow>
                   Inr (mo',
                        if world_rank ctx = 0
                        then s2\<lparr>stdout := stdout s2 @ [metrics_of acc epoch]\<rparr>
                        else s2))))"

declare epoch_body.simps [simp del]

text \<open>The loop over the epochs; an exception ends it.\<close>

fun run_epochs ::
  "('x, 'v, 'o) torch_ops \<Rightarrow> 'x surroundings \<Rightarrow> run_config \<Rightarrow> worker_context \<Rightarrow> nat list
     \<Rightarrow> ('v module \<times> 'o) \<times> 'v state \<Rightarrow> error + (('v module \<times> 'o) \<times> 'v state)" where
  "run_epochs ops env cfg ctx [] st = Inr st"
| "run_epochs ops env cfg ctx (epoch # epochs) st =
     (case epoch_body ops env cfg ctx epoch st of
        Inl e \<Rightarrow> Inl e
      | Inr st' \<Rightarrow> run_epochs ops env cfg ctx epochs st')"

text \<open>
  The model that \<open>train_loop\<close> builds: \<open>resnet18(num_classes=10)\<close> with its first layer
  replaced, then prepared for the worker group.
\<close>

definition build_model :: "('x, 'v, 'o) torch_ops \<Rightarrow> worker_context \<Rightarrow> 'v module" where
  "build_model ops ctx =
     prepare_model (world_size ctx)
       (set_child ''conv1'' (Conv2d (conv1_weight ops)) (resnet18 ops))"

text \<open>\<open>train_loop\<close>, run by the worker with context \<open>ctx\<close>: 10 epochs, \<open>range(10)\<close>.\<close>

definition train_loop ::
  "('x, 'v, 'o) torch_ops \<Rightarrow> 'x surroundings \<Rightarrow> run_config \<Rightarrow> worker_context \<Rightarrow> 'v state
     \<Rightarrow> error + (('v module \<times> 'o) \<times> 'v state)" where
  "train_loop ops env cfg ctx s =
     (let model = build_model ops ctx;
          optimizer = adam ops model
      in run_epochs ops env cfg ctx [0..<10] ((model, optimizer), s))"

text \<open>
  The batches of an epoch's training pass (\<open>e0\<close> is the sampler's epoch before the
  loop, which stays when \<open>set_epoch\<close> is not called), and the model and optimizer after
  the training passes of the given epochs.
\<close>

definition epoch_batches ::
  "'x surroundings \<Rightarrow> worker_context \<Rightarrow> nat \<Rightarrow> nat \<Rightarrow> 'x batch list" where
  "epoch_batches env ctx e0 epoch =
     train_batches env (if world_size ctx > 1 then epoch else e0) epoch"

fun trained ::
  "('x, 'v, 'o) torch_ops \<Rightarrow> 'x surroundings \<Rightarrow> worker_context \<Rightarrow> nat \<Rightarrow> nat list
     \<Rightarrow> 'v module \<times> 'o \<Rightarrow> 'v module \<times> 'o" where
  "trained ops env ctx e0 [] mo = mo"
| "trained ops env ctx e0 (epoch # epochs) mo =
     trained ops env ctx e0 epochs (train_func ops mo (epoch_batches env ctx e0 epoch))"

text \<open>
  The checkpoint that the \<open>with\<close> block of \<open>train_loop\<close> uploads as the run's
  \<open>i\<close>-th: the one file \<open>model.pt\<close>, holding the model's state dict.
\<close>

definition new_checkpoint :: "run_config \<Rightarrow> nat \<Rightarrow> 'v module \<Rightarrow> 'v checkpoint" where
  "new_checkpoint cfg i model =
     \<lparr>ckpt_root = storage_path cfg, ckpt_run = run_name cfg, ckpt_index = i,
      ckpt_files = [''model.pt'' \<mapsto> state_dict model]\<rparr>"

section \<open>A small worker, for the examples\<close>

text \<open>
  A two-layer stand-in for the ResNet whose training step changes nothing and which
  predicts the data itself as the classes, a test loader of one batch of two samples,
  one predicted right and one wrong, one free temporary name, and a storage that
  acknowledges every upload.
\<close>

definition example_classifier :: "int tensor \<Rightarrow> int tensor" where
  "example_classifier data = data"

definition example_ops :: "(int tensor, nat, unit) torch_ops" where
  "example_ops = \<lparr>resnet18 = Module [] [(''conv1'', Conv2d 0), (''fc'', Module [(''weight'', 2), (''bias'', 3)] [])],
               conv1_weight = 1, adam = (\<lambda>model. ()),
               train_step = (\<lambda>model optimizer b. (model, optimizer)),
               classify = (\<lambda>model. example_classifier)\<rparr>"

definition example_env :: "int tensor surroundings" where
  "example_env = \<lparr>train_batches = (\<lambda>e p. [(\<lparr>shape = [2], elems = [0, 1]\<rparr>, \<lparr>shape = [2], elems = [0, 1]\<rparr>)]),
               test_batches = (\<lambda>p. [(\<lparr>shape = [2], elems = [0, 1]\<rparr>, \<lparr>shape = [2], elems = [0, 0]\<rparr>)]),
               tmp_names = (\<lambda>p. [''/tmp/tmp0'']),
               upload_ack = (\<lambda>p. True)\<rparr>"

definition example_cfg :: run_config where
  "example_cfg = \<lparr>storage_path = ''../data/torch_ckpt'', run_name = ''exp_fashionmnist_resnet18'',
               retention_count = None\<rparr>"

definition example_state :: "nat state" where
  "example_state = \<lparr>local_fs = Map.empty, durable = [], records = [], next_index = 0,
                 stdout = [], sampler_epoch = 0\<rparr>"

definition example_files :: "nat \<Rightarrow> nat directory" where
  "example_files w = [''model.pt'' \<mapsto> [(''conv1.weight'', w)]]"

definition example_calls :: "(nat \<times> metrics \<times> string \<times> nat directory \<times> bool) list" where
  "example_calls = [(0, metrics_of (1 / 2) 0, ''/tmp/tmp0'', example_files 5, True),
                 (1, metrics_of (3 / 4) 1, ''/tmp/tmp1'', example_files 6, True),
                 (0, metrics_of 1 2, ''/tmp/tmp0'', example_files 7, True)]"

section \<open>The accuracy that \<open>test_func\<close> returns\<close>

lemma length_all_indices: "length (all_indices sh) = prod_list sh"
  by (induction sh) (simp_all add: length_concat comp_def sum_list_triv)

lemma eq_sum_one_label:
  assumes "one_label_per_sample p t"
  shows "\<exists>c. size0 t = Inr (numel t) \<and> eq_sum p t = Inr c \<and> c \<le> numel t"
proof -
  from assms obtain n where t: "shape t = [n]" and p: "shape p = [n]"
    by (cases "shape t") (auto simp: one_label_per_sample_def)
  have b: "broadcast_shape [n] [n] = Some [n]" by (simp add: broadcast_shape_def)
  have "length (filter (\<lambda>idx. item_at p idx = item_at t idx) (all_indices [n])) \<le> n"
    using length_filter_le [of _ "all_indices [n]"] by (simp only: length_all_indices) simp
  then show ?thesis
    by (simp add: size0_def numel_def eq_sum_def t p b)
qed

lemma test_counts_one_label:
  assumes "\<forall>(data, target) \<in> set dl. one_label_per_sample (model data) target"
  shows "\<exists>dc. test_counts model dl (c, n)
                 = Inr (c + dc, n + sum_list (map (\<lambda>(data, target). numel target) dl))
            \<and> dc \<le> sum_list (map (\<lambda>(data, target). numel target) dl)"
  using assms
proof (induction dl arbitrary: c n)
  case Nil
  then show ?case by simp
next
  case (Cons b dl)
  obtain data target where b: "b = (data, target)" by (cases b)
  from Cons.prems have one: "one_label_per_sample (model data) target"
    and rest: "\<forall>(data, target) \<in> set dl. one_label_per_sample (model data) target"
    by (simp_all add: b)
  from eq_sum_one_label [OF one] obtain c1 where
    s: "size0 target = Inr (numel target)" and e: "eq_sum (model data) target = Inr c1"
    and le: "c1 \<le> numel target" by blast
  from Cons.IH [OF rest, of "c + c1" "n + numel target"] obtain dc where
    r: "test_counts model dl (c + c1, n + numel target)
          = Inr (c + c1 + dc,
                 n + numel target + sum_list (map (\<lambda>(data, target). numel target) dl))"
    and dle: "dc \<le> sum_list (map (\<lambda>(data, target). numel target) dl)" by blast
  have "test_counts model (b # dl) (c, n)
          = Inr (c + (c1 + dc), n + sum_list (map (\<lambda>(data, target). numel target) (b # dl)))"
    by (simp add: b s e r add.assoc)
  moreover have "c1 + dc \<le> sum_list (map (\<lambda>(data, target). numel target) (b # dl))"
    using le dle by (simp add: b)
  ultimately show ?case by blast
qed

lemma sum_numel_pos:
  "(\<exists>(data, target) \<in> set dl. 0 < numel target)
     \<longleftrightarrow> 0 < sum_list (map (\<lambda>(data, target). numel target) dl)"
  by (induction dl) auto

text \<open>
  Claim C9, as stated, fails: for a batch of two samples whose target has the shape
  \<open>(2, 1)\<close> while \<open>predicted\<close> has the shape \<open>(2)\<close>, the comparison broadcasts to
  \<open>(2, 2)\<close> and counts 4 agreements, \<open>total\<close> is 2, and \<open>test_func\<close> returns 2.
\<close>

theorem test_func_above_one_counterexample:
  "tensor_ok \<lparr>shape = [2], elems = [0, 0::int]\<rparr> \<and>
   tensor_ok \<lparr>shape = [2, 1], elems = [0, 0::int]\<rparr> \<and>
   0 < numel \<lparr>shape = [2, 1], elems = [0, 0::int]\<rparr> \<and>
   test_func example_classifier
     [(\<lparr>shape = [2], elems = [0, 0]\<rparr>, \<lparr>shape = [2, 1], elems = [0, 0]\<rparr>)] = Inr 2 \<and>
   \<not> (2::rat) \<le> 1"
  by (simp add: tensor_ok_def numel_def test_func_def example_classifier_def size0_def
        eq_sum_def broadcast_shape_def item_at_def expand_index_def upt_rec)

text \<open>
  Claim C9, amended. For every data loader whose batches have one label per sample (the
  target is one-dimensional and \<open>predicted\<close> has its shape): when it yields at least one
  batch with at least one target element, \<open>test_func\<close> returns \<open>correct / total\<close>, a
  value between 0 and 1 (the counters satisfy \<open>correct \<le> total\<close> and \<open>0 < total\<close>); when
  it yields no element (no batch, or only empty batches), \<open>total\<close> stays 0 and the final
  division raises \<open>ZeroDivisionError\<close>.
\<close>

theorem test_func_ratio_or_zero_division:
  assumes "\<forall>(data, target) \<in> set data_loader. one_label_per_sample (model data) target"
  shows
  "((\<exists>(data, target) \<in> set data_loader. 0 < numel target) \<longrightarrow>
      (\<exists>correct seen. test_counts model data_loader (0, 0) = Inr (correct, seen) \<and>
         0 < seen \<and> correct \<le> seen \<and>
         test_func model data_loader = Inr (of_nat correct / of_nat seen) \<and>
         (0::rat) \<le> of_nat correct / of_nat seen \<and>
         of_nat correct / of_nat seen \<le> (1::rat))) \<and>
   ((\<forall>(data, target) \<in> set data_loader. numel target = 0) \<longrightarrow>
      (\<exists>correct. test_counts model data_loader (0, 0) = Inr (correct, 0)) \<and>
      test_func model data_loader = Inl ZeroDivisionError)"
proof -
  let ?t = "sum_list (map (\<lambda>(data, target). numel target) data_loader)"
  from test_counts_one_label [OF assms, of 0 0] obtain c where
    counts: "test_counts model data_loader (0, 0) = Inr (c, ?t)" and le: "c \<le> ?t"
    by auto
  have first: "\<exists>correct seen. test_counts model data_loader (0, 0) = Inr (correct, seen) \<and>
         0 < seen \<and> correct \<le> seen \<and>
         test_func model data_loader = Inr (of_nat correct / of_nat seen) \<and>
         (0::rat) \<le> of_nat correct / of_nat seen \<and>
         of_nat correct / of_nat seen \<le> (1::rat)"
    if some: "\<exists>(data, target) \<in> set data_loader. 0 < numel target"
  proof -
    from some have pos: "0 < ?t" by (rule iffD1 [OF sum_numel_pos])
    then have ne: "?t \<noteq> 0" by arith
    have res: "test_func model data_loader = Inr (of_nat c / of_nat ?t)"
      unfolding test_func_def counts using ne by simp
    have lo: "(0::rat) \<le> of_nat c / of_nat ?t" by simp
    have hi: "of_nat c / of_nat ?t \<le> (1::rat)"
      using pos le by (simp add: divide_le_eq_1)
    from counts pos le res lo hi show ?thesis by blast
  qed
  have second: "(\<exists>correct. test_counts model data_loader (0, 0) = Inr (correct, 0)) \<and>
      test_func model data_loader = Inl ZeroDivisionError"
    if none: "\<forall>(data, target) \<in> set data_loader. numel target = 0"
  proof -
    have "\<not> 0 < ?t"
    proof
      assume "0 < ?t"
      then have "\<exists>(data, target) \<in> set data_loader. 0 < numel target"
        by (rule iffD2 [OF sum_numel_pos])
      with none show False by auto
    qed
    then have zero: "?t = 0" by arith
    have c0: "test_counts model data_loader (0, 0) = Inr (c, 0)"
      using counts by (simp only: zero)
    have "test_func model data_loader = Inl ZeroDivisionError"
      unfolding test_func_def c0 by simp
    with c0 show ?thesis by blast
  qed
  from first second show ?thesis by blast
qed

theorem test_func_ratio_or_zero_division_witness:
  "one_label_per_sample (example_classifier \<lparr>shape = [2], elems = [0, 1]\<rparr>)
     \<lparr>shape = [2], elems = [0, 0::int]\<rparr> \<and>
   0 < numel \<lparr>shape = [2], elems = [0, 0::int]\<rparr> \<and>
   test_func example_classifier
     [(\<lparr>shape = [2], elems = [0, 1]\<rparr>, \<lparr>shape = [2], elems = [0, 0]\<rparr>)] = Inr (1 / 2) \<and>
   numel \<lparr>shape = [0], elems = []::int list\<rparr> = 0 \<and>
   test_func example_classifier
     [(\<lparr>shape = [0], elems = []\<rparr>, \<lparr>shape = [0], elems = []\<rparr>)] = Inl ZeroDivisionError \<and>
   test_func example_classifier [] = Inl ZeroDivisionError"
  using test_func_ratio_or_zero_division
          [of "[(\<lparr>shape = [2], elems = [0, 1]\<rparr>, \<lparr>shape = [2], elems = [0, 0]\<rparr>)]"
              example_classifier]
        test_func_ratio_or_zero_division
          [of "[(\<lparr>shape = [0], elems = []\<rparr>, \<lparr>shape = [0], elems = []\<rparr>)]"
              example_classifier]
        test_func_ratio_or_zero_division [of "[]" example_classifier]
  by (simp add: one_label_per_sample_def numel_def test_func_def example_classifier_def
        size0_def eq_sum_def broadcast_shape_def item_at_def expand_index_def upt_rec)

section \<open>The saved state dict: wrapper against wrapped module\<close>




lemma state_dict_set_child_conv1:
  "(''conv1.weight'', w) \<in> set (state_dict (set_child ''conv1'' (Conv2d w) m))"
proof (cases "''conv1'' \<in> fst ` set (children m)")
  case True
  then obtain old where "(''conv1'', old) \<in> set (children m)" by force
  then have "(''conv1'', Conv2d w)
      \<in> set (map (\<lambda>(k, old). if k = ''conv1'' then (k, Conv2d w) else (k, old)) (children m))"
    by force
  then show ?thesis
    using True unfolding state_dict_def set_child_def Conv2d_def
    by (simp only: state_dict_from.simps if_True) force
next
  case False
  then show ?thesis
    unfolding state_dict_def set_child_def Conv2d_def by simp
qed




section \<open>The reporter: upload, local copy and retention\<close>

lemma report_checkpoint_Inr:
  assumes "report cfg ack rank m (Some dir) s = Inr s'"
  shows "\<exists>files. local_fs s dir = Some files \<and> ack \<and>
           s' = s\<lparr>records := records s @ [(rank, m)],
                  durable := prune (retention_count cfg)
                     (durable s @ [\<lparr>ckpt_root = storage_path cfg, ckpt_run = run_name cfg,
                                    ckpt_index = next_index s, ckpt_files = files\<rparr>]),
                  next_index := Suc (next_index s),
                  local_fs := (local_fs s)(dir := None)\<rparr>"
  using assms by (auto simp: report_def Let_def split: option.splits if_splits)

lemma prune_last:
  "k \<noteq> Some 0 \<Longrightarrow> prune k (cs @ [c]) \<noteq> [] \<and> last (prune k (cs @ [c])) = c"
  by (cases k) (auto simp: prune_def)

lemma mkdtemp_Inr:
  assumes "mkdtemp names s = Inr (d, s1)"
  shows "d \<in> set names \<and> local_fs s d = None \<and> s1 = s\<lparr>local_fs := (local_fs s)(d \<mapsto> Map.empty)\<rparr>"
proof -
  from assms have f: "find (\<lambda>d. local_fs s d = None) names = Some d"
    and s1: "s1 = s\<lparr>local_fs := (local_fs s)(d \<mapsto> Map.empty)\<rparr>"
    by (auto simp: mkdtemp_def split: option.splits)
  from f have "d \<in> set names \<and> local_fs s d = None"
    by (auto simp: find_Some_iff)
  with s1 show ?thesis by simp
qed

lemma mkdtemp_ok:
  assumes "\<exists>d \<in> set names. local_fs s d = None"
  shows "\<exists>d s1. mkdtemp names s = Inr (d, s1)"
proof -
  from assms have "find (\<lambda>d. local_fs s d = None) names \<noteq> None"
    by (auto simp: find_None_iff)
  then show ?thesis
    by (auto simp: mkdtemp_def split: option.splits)
qed

lemma save_and_report_Inr:
  assumes "save_and_report cfg ack names rank model m s = Inr s'"
  shows "ack \<and> (\<exists>d \<in> set names. local_fs s d = None) \<and>
         local_fs s' = local_fs s \<and>
         records s' = records s @ [(rank, m)] \<and>
         durable s' = prune (retention_count cfg) (durable s @ [new_checkpoint cfg (next_index s) model]) \<and>
         next_index s' = Suc (next_index s) \<and>
         stdout s' = stdout s \<and> sampler_epoch s' = sampler_epoch s"
proof -
  from assms obtain d s1 s2 s3 where
    a: "mkdtemp names s = Inr (d, s1)" and
    b: "torch_save (state_dict model) d ''model.pt'' s1 = Inr s2" and
    c: "report cfg ack rank m (Some d) s2 = Inr s3" and
    s': "s' = cleanup d s3"
    by (auto simp: save_and_report_def split: sum.splits prod.splits)
  from mkdtemp_Inr [OF a] have d: "d \<in> set names" "local_fs s d = None"
    and s1: "s1 = s\<lparr>local_fs := (local_fs s)(d \<mapsto> Map.empty)\<rparr>" by auto
  from b have s2: "s2 = s\<lparr>local_fs := (local_fs s)(d \<mapsto> [''model.pt'' \<mapsto> state_dict model])\<rparr>"
    by (auto simp: torch_save_def s1)
  from report_checkpoint_Inr [OF c] have ack: ack and
    s3: "s3 = s2\<lparr>records := records s2 @ [(rank, m)],
                  durable := prune (retention_count cfg)
                     (durable s2 @ [\<lparr>ckpt_root = storage_path cfg, ckpt_run = run_name cfg,
                                    ckpt_index = next_index s2, ckpt_files = [''model.pt'' \<mapsto> state_dict model]\<rparr>]),
                  next_index := Suc (next_index s2),
                  local_fs := (local_fs s2)(d := None)\<rparr>"
    by (auto simp: s2)
  have fs: "(local_fs s)(d := None) = local_fs s"
    using d(2) by (simp add: fun_upd_idem)
  show ?thesis
    using ack d by (auto simp: s' s3 s2 cleanup_def new_checkpoint_def fs)
qed

lemma save_and_report_ok:
  assumes ack and "\<exists>d \<in> set names. local_fs s d = None"
  shows "\<exists>s'. save_and_report cfg ack names rank model m s = Inr s'"
proof -
  from mkdtemp_ok [OF assms(2)] obtain d s1 where a: "mkdtemp names s = Inr (d, s1)" by blast
  from mkdtemp_Inr [OF a] have s1: "s1 = s\<lparr>local_fs := (local_fs s)(d \<mapsto> Map.empty)\<rparr>" by simp
  show ?thesis
    using assms(1) by (simp add: save_and_report_def a torch_save_def s1 report_def Let_def)
qed


text \<open>
  Claim C1. Every successful call of the reporter with a checkpoint staged in a local
  directory has, when it returns, put the directory's content into durable storage under
  the path configured in the run configuration (it is the newest checkpoint there), and
  the local directory no longer exists. For the \<open>with\<close> block of \<open>train_loop\<close>, which
  stages the state dict in a temporary directory and makes this call: when the block is
  left, the newest checkpoint in durable storage holds the saved state dict and the local
  file system is as it was before the block. The retention policy keeps at least one
  checkpoint (the notebook's configuration sets none).
\<close>

theorem report_uploads_and_removes_local_copy:
  "(report cfg ack rank m (Some dir) s = Inr s' \<and> retention_count cfg \<noteq> Some 0 \<longrightarrow>
      (\<exists>files. local_fs s dir = Some files \<and>
         durable s' \<noteq> [] \<and>
         last (durable s') = \<lparr>ckpt_root = storage_path cfg, ckpt_run = run_name cfg,
                               ckpt_index = next_index s, ckpt_files = files\<rparr> \<and>
         local_fs s' dir = None)) \<and>
   (save_and_report cfg ack names rank model m s = Inr s2 \<and> retention_count cfg \<noteq> Some 0 \<longrightarrow>
      durable s2 \<noteq> [] \<and>
      last (durable s2) = new_checkpoint cfg (next_index s) model \<and>
      local_fs s2 = local_fs s)"
proof (intro conjI impI)
  assume a: "report cfg ack rank m (Some dir) s = Inr s' \<and> retention_count cfg \<noteq> Some 0"
  from a have r: "report cfg ack rank m (Some dir) s = Inr s'" by (rule conjunct1)
  from report_checkpoint_Inr [OF r] obtain files where
    f: "local_fs s dir = Some files" and
    s': "s' = s\<lparr>records := records s @ [(rank, m)],
                  durable := prune (retention_count cfg)
                     (durable s @ [\<lparr>ckpt_root = storage_path cfg, ckpt_run = run_name cfg,
                                    ckpt_index = next_index s, ckpt_files = files\<rparr>]),
                  next_index := Suc (next_index s),
                  local_fs := (local_fs s)(dir := None)\<rparr>"
    by blast
  from a have k: "retention_count cfg \<noteq> Some 0" by (rule conjunct2)
  show "\<exists>files. local_fs s dir = Some files \<and>
         durable s' \<noteq> [] \<and>
         last (durable s') = \<lparr>ckpt_root = storage_path cfg, ckpt_run = run_name cfg,
                               ckpt_index = next_index s, ckpt_files = files\<rparr> \<and>
         local_fs s' dir = None"
    using f prune_last [OF k] by (simp add: s')
next
  assume b: "save_and_report cfg ack names rank model m s = Inr s2 \<and> retention_count cfg \<noteq> Some 0"
  then have k: "retention_count cfg \<noteq> Some 0" by (rule conjunct2)
  from b have sr: "save_and_report cfg ack names rank model m s = Inr s2" by (rule conjunct1)
  from save_and_report_Inr [OF sr]
  have d: "durable s2 = prune (retention_count cfg)
             (durable s @ [new_checkpoint cfg (next_index s) model])"
    and fs: "local_fs s2 = local_fs s"
    by (rule conjunct1 [OF conjunct2 [OF conjunct2 [OF conjunct2 [OF conjunct2]]]],
        rule conjunct1 [OF conjunct2 [OF conjunct2]])
  show "durable s2 \<noteq> []"
    unfolding d by (rule conjunct1 [OF prune_last [OF k]])
  show "last (durable s2) = new_checkpoint cfg (next_index s) model"
    unfolding d by (rule conjunct2 [OF prune_last [OF k]])
  show "local_fs s2 = local_fs s" by (rule fs)
qed

lemma example_report:
  "report example_cfg True 0 (metrics_of (1 / 2) 0) (Some ''/tmp/tmp0'')
       (example_state\<lparr>local_fs := [''/tmp/tmp0'' \<mapsto> example_files 7]\<rparr>)
     = Inr \<lparr>local_fs = Map.empty,
            durable = [\<lparr>ckpt_root = ''../data/torch_ckpt'', ckpt_run = ''exp_fashionmnist_resnet18'',
                        ckpt_index = 0, ckpt_files = example_files 7\<rparr>],
            records = [(0, metrics_of (1 / 2) 0)], next_index = 1, stdout = [],
            sampler_epoch = 0\<rparr>"
  by (simp add: report_def example_cfg_def example_state_def prune_def)


lemma example_save_and_report:
  "save_and_report example_cfg True [''/tmp/tmp0''] 0 (Conv2d 7) (metrics_of (1 / 2) 0) example_state
     = Inr \<lparr>local_fs = Map.empty,
            durable = [\<lparr>ckpt_root = ''../data/torch_ckpt'', ckpt_run = ''exp_fashionmnist_resnet18'',
                        ckpt_index = 0, ckpt_files = [''model.pt'' \<mapsto> [(''weight'', 7)]]\<rparr>],
            records = [(0, metrics_of (1 / 2) 0)], next_index = 1, stdout = [],
            sampler_epoch = 0\<rparr>"
  by (simp add: save_and_report_def mkdtemp_def torch_save_def report_def cleanup_def
        example_cfg_def example_state_def prune_def state_dict_def Conv2d_def)

theorem report_uploads_and_removes_local_copy_witness:
  "report example_cfg True 0 (metrics_of (1 / 2) 0) (Some ''/tmp/tmp0'')
       (example_state\<lparr>local_fs := [''/tmp/tmp0'' \<mapsto> example_files 7]\<rparr>)
     = Inr \<lparr>local_fs = Map.empty,
            durable = [\<lparr>ckpt_root = ''../data/torch_ckpt'', ckpt_run = ''exp_fashionmnist_resnet18'',
                        ckpt_index = 0, ckpt_files = example_files 7\<rparr>],
            records = [(0, metrics_of (1 / 2) 0)], next_index = 1, stdout = [],
            sampler_epoch = 0\<rparr> \<and>
   retention_count example_cfg \<noteq> Some 0 \<and>
   save_and_report example_cfg True [''/tmp/tmp0''] 0 (Conv2d 7) (metrics_of (1 / 2) 0) example_state
     = Inr \<lparr>local_fs = Map.empty,
            durable = [\<lparr>ckpt_root = ''../data/torch_ckpt'', ckpt_run = ''exp_fashionmnist_resnet18'',
                        ckpt_index = 0, ckpt_files = [''model.pt'' \<mapsto> [(''weight'', 7)]]\<rparr>],
            records = [(0, metrics_of (1 / 2) 0)], next_index = 1, stdout = [],
            sampler_epoch = 0\<rparr> \<and>
   new_checkpoint example_cfg (next_index example_state) (Conv2d (7::nat))
     = \<lparr>ckpt_root = ''../data/torch_ckpt'', ckpt_run = ''exp_fashionmnist_resnet18'',
        ckpt_index = 0, ckpt_files = [''model.pt'' \<mapsto> [(''weight'', 7)]]\<rparr>"
proof -
  have k: "retention_count example_cfg \<noteq> Some 0" by (simp add: example_cfg_def)
  note call = report_uploads_and_removes_local_copy
     [of example_cfg True 0 "metrics_of (1 / 2) 0" "''/tmp/tmp0''"
         "example_state\<lparr>local_fs := [''/tmp/tmp0'' \<mapsto> example_files 7]\<rparr>"
         "\<lparr>local_fs = Map.empty,
            durable = [\<lparr>ckpt_root = ''../data/torch_ckpt'', ckpt_run = ''exp_fashionmnist_resnet18'',
                        ckpt_index = 0, ckpt_files = example_files 7\<rparr>],
            records = [(0, metrics_of (1 / 2) 0)], next_index = 1, stdout = [],
            sampler_epoch = 0\<rparr>"]
  note block = report_uploads_and_removes_local_copy
     [of example_cfg True 0 "metrics_of (1 / 2) 0" _ example_state _
         "[''/tmp/tmp0'']" "Conv2d 7"
         "\<lparr>local_fs = Map.empty,
            durable = [\<lparr>ckpt_root = ''../data/torch_ckpt'', ckpt_run = ''exp_fashionmnist_resnet18'',
                        ckpt_index = 0, ckpt_files = [''model.pt'' \<mapsto> [(''weight'', 7)]]\<rparr>],
            records = [(0, metrics_of (1 / 2) 0)], next_index = 1, stdout = [],
            sampler_epoch = 0\<rparr>"]
  from block example_save_and_report k
  have "last [\<lparr>ckpt_root = ''../data/torch_ckpt'', ckpt_run = ''exp_fashionmnist_resnet18'',
                 ckpt_index = 0, ckpt_files = [''model.pt'' \<mapsto> [(''weight'', 7::nat)]]\<rparr>]
          = new_checkpoint example_cfg (next_index example_state) (Conv2d 7)"
    by simp
  then show ?thesis
    using call example_report example_save_and_report k by simp
qed

lemma prune_prune_append: "prune k (prune k xs @ ys) = prune k (xs @ ys)"
proof (cases k)
  case None
  then show ?thesis by (simp add: prune_def)
next
  case (Some n)
  show ?thesis
  proof (cases "length xs \<le> n")
    case True
    then show ?thesis by (simp add: prune_def Some)
  next
    case False
    then have "length xs - (length xs - n) = n" by simp
    then show ?thesis using False
      by (simp add: prune_def Some add.commute)
  qed
qed

lemma upload_all_durable:
  assumes "upload_all cfg calls s = Inr s'" and "durable s = prune (retention_count cfg) (durable s)"
  shows "durable s' = prune (retention_count cfg) (durable s @ uploaded cfg (next_index s) calls)"
  using assms
proof (induction calls arbitrary: s)
  case Nil
  then show ?case by simp
next
  case (Cons call calls)
  obtain rank m dir files ack where call: "call = (rank, m, dir, files, ack)"
    by (cases call) auto
  let ?s0 = "s\<lparr>local_fs := (local_fs s)(dir \<mapsto> files)\<rparr>"
  from Cons.prems(1) obtain s1 where
    r: "report cfg ack rank m (Some dir) ?s0 = Inr s1" and
    rest: "upload_all cfg calls s1 = Inr s'"
    by (auto simp: call split: sum.splits)
  let ?c = "\<lparr>ckpt_root = storage_path cfg, ckpt_run = run_name cfg,
             ckpt_index = next_index s, ckpt_files = files\<rparr>"
  from report_checkpoint_Inr [OF r]
  have d1: "durable s1 = prune (retention_count cfg) (durable s @ [?c])"
    and n1: "next_index s1 = Suc (next_index s)"
    by auto
  have steady: "durable s1 = prune (retention_count cfg) (durable s1)"
    unfolding d1 using prune_prune_append [of "retention_count cfg" "durable s @ [?c]" "[]"]
    by simp
  from Cons.IH [OF rest steady]
  have "durable s' = prune (retention_count cfg)
          (prune (retention_count cfg) (durable s @ [?c]) @ uploaded cfg (Suc (next_index s)) calls)"
    by (simp add: d1 n1)
  then show ?case
    by (simp add: prune_prune_append call)
qed

lemma length_uploaded: "length (uploaded cfg i calls) = length calls"
  by (induction cfg i calls rule: uploaded.induct) simp_all

text \<open>
  Claim C4. For every run and every \<open>N\<close> successful checkpoint uploads with
  \<open>retention_count = K\<close>, starting from a run with no checkpoint, exactly \<open>min N K\<close>
  checkpoints remain in durable storage, and they are the most recent ones, in the order
  of their upload; so at most \<open>retention_count\<close> checkpoints persist.
\<close>

theorem retention_keeps_most_recent:
  assumes "upload_all cfg calls s = Inr s'"
    and "retention_count cfg = Some K"
    and "durable s = []"
  shows "length (durable s') = min (length calls) K \<and>
         durable s' = drop (length calls - K) (uploaded cfg (next_index s) calls)"
proof -
  have "durable s = prune (retention_count cfg) (durable s)"
    by (simp add: assms(3) prune_def split: option.splits)
  from upload_all_durable [OF assms(1) this]
  have d: "durable s' = drop (length calls - K) (uploaded cfg (next_index s) calls)"
    by (simp add: assms(2,3) prune_def length_uploaded)
  show ?thesis
    unfolding d by (simp add: length_uploaded) 
qed

lemma example_uploads:
  "\<exists>s'. upload_all (example_cfg\<lparr>retention_count := Some 2\<rparr>) example_calls example_state = Inr s'"
  by (simp add: example_calls_def report_def example_state_def prune_def)


lemma example_uploaded:
  "uploaded (example_cfg\<lparr>retention_count := Some 2\<rparr>) 0 example_calls
     = [\<lparr>ckpt_root = ''../data/torch_ckpt'', ckpt_run = ''exp_fashionmnist_resnet18'',
         ckpt_index = 0, ckpt_files = example_files 5\<rparr>,
        \<lparr>ckpt_root = ''../data/torch_ckpt'', ckpt_run = ''exp_fashionmnist_resnet18'',
         ckpt_index = 1, ckpt_files = example_files 6\<rparr>,
        \<lparr>ckpt_root = ''../data/torch_ckpt'', ckpt_run = ''exp_fashionmnist_resnet18'',
         ckpt_index = 2, ckpt_files = example_files 7\<rparr>]"
  by (simp add: example_calls_def example_cfg_def)


theorem retention_keeps_most_recent_witness:
  "\<exists>s'. upload_all (example_cfg\<lparr>retention_count := Some 2\<rparr>) example_calls example_state = Inr s' \<and>
     length (durable s') = 2 \<and>
     map ckpt_index (durable s') = [1, 2] \<and>
     map ckpt_files (durable s') = [example_files 6, example_files 7]"
proof -
  from example_uploads obtain s' where
    up: "upload_all (example_cfg\<lparr>retention_count := Some 2\<rparr>) example_calls example_state = Inr s'"
    by blast
  have k: "retention_count (example_cfg\<lparr>retention_count := Some 2\<rparr>) = Some 2" by simp
  have e: "durable example_state = []" by (simp add: example_state_def)
  have n: "next_index example_state = 0" by (simp add: example_state_def)
  have l: "length example_calls = 3" by (simp add: example_calls_def)
  from retention_keeps_most_recent [OF up k e]
  have kept: "length (durable s') = 2 \<and>
     map ckpt_index (durable s') = [1, 2] \<and>
     map ckpt_files (durable s') = [example_files 6, example_files 7]"
    unfolding n l example_uploaded by simp
  show ?thesis
    by (rule exI [of _ s']) (simp only: up kept simp_thms)
qed

section \<open>The training loop\<close>

lemma epoch_body_Inr:
  assumes "epoch_body ops env cfg ctx epoch (mo, s) = Inr (mo', s')"
  shows "mo' = train_func ops mo (epoch_batches env ctx (sampler_epoch s) epoch) \<and>
         (\<exists>acc. test_func (classify ops (fst mo')) (test_batches env epoch) = Inr acc \<and>
            records s' = records s @ [(world_rank ctx, metrics_of acc epoch)] \<and>
            stdout s' = stdout s @ (if world_rank ctx = 0 then [metrics_of acc epoch] else [])) \<and>
         local_fs s' = local_fs s \<and>
         next_index s' = Suc (next_index s) \<and>
         sampler_epoch s' = (if world_size ctx > 1 then epoch else sampler_epoch s) \<and>
         durable s' = prune (retention_count cfg)
                        (durable s @ [new_checkpoint cfg (next_index s) (fst mo')])"
proof -
  define s1 where "s1 = (if world_size ctx > 1 then s\<lparr>sampler_epoch := epoch\<rparr> else s)"
  define mo1 where "mo1 = train_func ops mo (train_batches env (sampler_epoch s1) epoch)"
  have mo1: "mo1 = train_func ops mo (epoch_batches env ctx (sampler_epoch s) epoch)"
    by (simp add: mo1_def s1_def epoch_batches_def)
  have body: "epoch_body ops env cfg ctx epoch (mo, s) =
      (case test_func (classify ops (fst mo1)) (test_batches env epoch) of
         Inl e \<Rightarrow> Inl e
       | Inr acc \<Rightarrow>
           (case save_and_report cfg (upload_ack env epoch) (tmp_names env epoch)
                   (world_rank ctx) (fst mo1) (metrics_of acc epoch) s1 of
              Inl e \<Rightarrow> Inl e
            | Inr s2 \<Rightarrow>
                Inr (mo1,
                     if world_rank ctx = 0
                     then s2\<lparr>stdout := stdout s2 @ [metrics_of acc epoch]\<rparr>
                     else s2)))"
    by (simp only: epoch_body.simps Let_def mo1_def s1_def)
  from assms obtain acc s2 where
    mo': "mo' = mo1" and
    acc: "test_func (classify ops (fst mo1)) (test_batches env epoch) = Inr acc" and
    sr: "save_and_report cfg (upload_ack env epoch) (tmp_names env epoch) (world_rank ctx)
           (fst mo1) (metrics_of acc epoch) s1 = Inr s2" and
    s': "s' = (if world_rank ctx = 0 then s2\<lparr>stdout := stdout s2 @ [metrics_of acc epoch]\<rparr> else s2)"
    unfolding body by (auto split: sum.splits)
  note facts = save_and_report_Inr [OF sr]
  have rec: "records s' = records s @ [(world_rank ctx, metrics_of acc epoch)]"
    using facts by (simp add: s' s1_def)
  have out: "stdout s' = stdout s @ (if world_rank ctx = 0 then [metrics_of acc epoch] else [])"
    using facts by (simp add: s' s1_def)
  have fs: "local_fs s' = local_fs s"
    using facts by (simp add: s' s1_def)
  have idx: "next_index s' = Suc (next_index s)"
    using facts by (simp add: s' s1_def)
  have ep: "sampler_epoch s' = (if world_size ctx > 1 then epoch else sampler_epoch s)"
    using facts by (simp add: s' s1_def)
  have dur: "durable s' = prune (retention_count cfg)
                        (durable s @ [new_checkpoint cfg (next_index s) (fst mo1)])"
    using facts by (simp add: s' s1_def)
  show ?thesis
    unfolding mo' using mo1 acc rec out fs idx ep dur by blast
qed

lemma epoch_body_ok:
  assumes "\<forall>model. \<exists>acc. test_func (classify ops model) (test_batches env epoch) = Inr acc"
    and "upload_ack env epoch"
    and "\<exists>d \<in> set (tmp_names env epoch). local_fs s d = None"
  shows "\<exists>st'. epoch_body ops env cfg ctx epoch (mo, s) = Inr st'"
proof -
  let ?s1 = "if world_size ctx > 1 then s\<lparr>sampler_epoch := epoch\<rparr> else s"
  let ?mo = "train_func ops mo (train_batches env (sampler_epoch ?s1) epoch)"
  from assms(1)
  obtain acc where acc: "test_func (classify ops (fst ?mo)) (test_batches env epoch) = Inr acc"
    by blast
  have "\<exists>d \<in> set (tmp_names env epoch). local_fs ?s1 d = None"
    using assms(3) by simp
  from save_and_report_ok [OF assms(2) this]
  obtain s2 where "save_and_report cfg (upload_ack env epoch) (tmp_names env epoch)
      (world_rank ctx) (fst ?mo) (metrics_of acc epoch) ?s1 = Inr s2"
    by blast
  with acc show ?thesis
    by (simp add: epoch_body.simps Let_def)
qed

lemma trained_sampler_epoch:
  "trained ops env ctx (if world_size ctx > 1 then e else e0) es mo = trained ops env ctx e0 es mo"
  by (induction es arbitrary: mo) (simp_all add: epoch_batches_def)

lemma run_epochs_Inr:
  assumes "run_epochs ops env cfg ctx es (mo, s) = Inr (mo', s')"
  shows "mo' = trained ops env ctx (sampler_epoch s) es mo \<and>
         local_fs s' = local_fs s \<and>
         next_index s' = next_index s + length es \<and>
         (\<exists>accs. length accs = length es \<and>
            records s' = records s @ map (\<lambda>(e, acc). (world_rank ctx, metrics_of acc e)) (zip es accs) \<and>
            stdout s' = stdout s @
              (if world_rank ctx = 0 then map (\<lambda>(e, acc). metrics_of acc e) (zip es accs) else []) \<and>
            (\<forall>i < length es.
               test_func (classify ops (fst (trained ops env ctx (sampler_epoch s) (take (Suc i) es) mo)))
                 (test_batches env (es ! i)) = Inr (accs ! i)))"
  using assms
proof (induction es arbitrary: mo s)
  case Nil
  then show ?case by simp
next
  case (Cons e es)
  from Cons.prems obtain mo1 s1 where
    first: "epoch_body ops env cfg ctx e (mo, s) = Inr (mo1, s1)" and
    rest: "run_epochs ops env cfg ctx es (mo1, s1) = Inr (mo', s')"
    by (auto split: sum.splits)
  from epoch_body_Inr [OF first] obtain acc where
    mo1: "mo1 = train_func ops mo (epoch_batches env ctx (sampler_epoch s) e)" and
    acc: "test_func (classify ops (fst mo1)) (test_batches env e) = Inr acc" and
    rec1: "records s1 = records s @ [(world_rank ctx, metrics_of acc e)]" and
    out1: "stdout s1 = stdout s @ (if world_rank ctx = 0 then [metrics_of acc e] else [])" and
    fs1: "local_fs s1 = local_fs s" and
    idx1: "next_index s1 = Suc (next_index s)" and
    ep1: "sampler_epoch s1 = (if world_size ctx > 1 then e else sampler_epoch s)"
    by blast
  from Cons.IH [OF rest] obtain accs where
    mo': "mo' = trained ops env ctx (sampler_epoch s1) es mo1" and
    fs: "local_fs s' = local_fs s1" and
    idx: "next_index s' = next_index s1 + length es" and
    len: "length accs = length es" and
    rec: "records s' = records s1 @ map (\<lambda>(e, acc). (world_rank ctx, metrics_of acc e)) (zip es accs)" and
    out: "stdout s' = stdout s1 @
              (if world_rank ctx = 0 then map (\<lambda>(e, acc). metrics_of acc e) (zip es accs) else [])" and
    accs: "\<forall>i < length es.
               test_func (classify ops (fst (trained ops env ctx (sampler_epoch s1) (take (Suc i) es) mo1)))
                 (test_batches env (es ! i)) = Inr (accs ! i)"
    by blast
  have tr: "\<And>xs. trained ops env ctx (sampler_epoch s1) xs mo1
                 = trained ops env ctx (sampler_epoch s) (e # xs) mo"
    unfolding ep1 trained_sampler_epoch mo1 by simp
  have 1: "mo' = trained ops env ctx (sampler_epoch s) (e # es) mo"
    by (simp only: mo' tr)
  have 2: "local_fs s' = local_fs s" by (simp add: fs fs1)
  have 3: "next_index s' = next_index s + length (e # es)" by (simp add: idx idx1)
  have 4: "length (acc # accs) = length (e # es)" by (simp add: len)
  have 5: "records s' = records s @
             map (\<lambda>(e, acc). (world_rank ctx, metrics_of acc e)) (zip (e # es) (acc # accs))"
    by (simp add: rec rec1)
  have 6: "stdout s' = stdout s @
              (if world_rank ctx = 0
               then map (\<lambda>(e, acc). metrics_of acc e) (zip (e # es) (acc # accs)) else [])"
    by (simp add: out out1)
  have 7: "\<forall>i < length (e # es).
               test_func (classify ops (fst (trained ops env ctx (sampler_epoch s) (take (Suc i) (e # es)) mo)))
                 (test_batches env ((e # es) ! i)) = Inr ((acc # accs) ! i)"
  proof (intro allI impI)
    fix i assume i: "i < length (e # es)"
    show "test_func (classify ops (fst (trained ops env ctx (sampler_epoch s) (take (Suc i) (e # es)) mo)))
                 (test_batches env ((e # es) ! i)) = Inr ((acc # accs) ! i)"
    proof (cases i)
      case 0
      then show ?thesis using acc by (simp add: mo1)
    next
      case (Suc j)
      with i have j: "j < length es" by simp
      from accs j have "test_func (classify ops (fst (trained ops env ctx (sampler_epoch s1) (take (Suc j) es) mo1)))
                 (test_batches env (es ! j)) = Inr (accs ! j)" by blast
      then show ?thesis
        unfolding tr by (simp add: Suc)
    qed
  qed
  from 1 2 3 4 5 6 7 show ?case by blast
qed

lemma run_epochs_ok:
  assumes "\<forall>e \<in> set es. (\<forall>model. \<exists>acc. test_func (classify ops model) (test_batches env e) = Inr acc) \<and> upload_ack env e \<and>
             (\<exists>d \<in> set (tmp_names env e). local_fs s d = None)"
  shows "\<exists>st'. run_epochs ops env cfg ctx es (mo, s) = Inr st'"
  using assms
proof (induction es arbitrary: mo s)
  case Nil
  then show ?case by simp
next
  case (Cons e es)
  from Cons.prems have
    "\<forall>model. \<exists>acc. test_func (classify ops model) (test_batches env e) = Inr acc"
    "upload_ack env e"
    "\<exists>d \<in> set (tmp_names env e). local_fs s d = None"
    by simp_all
  from epoch_body_ok [OF this] obtain mo1 s1 where
    first: "epoch_body ops env cfg ctx e (mo, s) = Inr (mo1, s1)" by fastforce
  from epoch_body_Inr [OF first] have fs1: "local_fs s1 = local_fs s" by blast
  have "\<forall>e \<in> set es. (\<forall>model. \<exists>acc. test_func (classify ops model) (test_batches env e) = Inr acc) \<and> upload_ack env e \<and>
             (\<exists>d \<in> set (tmp_names env e). local_fs s1 d = None)"
    using Cons.prems by (simp add: fs1)
  from Cons.IH [OF this] obtain st' where "run_epochs ops env cfg ctx es (mo1, s1) = Inr st'"
    by blast
  then show ?case by (simp add: first)
qed

lemma zip_upt_nth:
  "length ys = n \<Longrightarrow> map f (zip [0..<n] ys) = map (\<lambda>i. f (i, ys ! i)) [0..<n]"
  by (rule nth_equalityI) simp_all

lemma train_loop_ok:
  assumes "\<forall>e < 10. (\<forall>model. \<exists>acc. test_func (classify ops model) (test_batches env e) = Inr acc) \<and> upload_ack env e \<and>
             (\<exists>d \<in> set (tmp_names env e). local_fs s d = None)"
  shows "\<exists>mo' s'. train_loop ops env cfg ctx s = Inr (mo', s')"
proof -
  have "\<forall>e \<in> set [0..<10]. (\<forall>model. \<exists>acc. test_func (classify ops model) (test_batches env e) = Inr acc) \<and> upload_ack env e \<and>
             (\<exists>d \<in> set (tmp_names env e). local_fs s d = None)"
    using assms by simp
  from run_epochs_ok [OF this] show ?thesis
    unfolding train_loop_def Let_def by (metis surj_pair)
qed

lemma example_accuracy:
  "test_func (classify example_ops model) (test_batches example_env e) = Inr (1 / 2)"
  by (simp add: example_ops_def example_env_def test_func_def example_classifier_def
        size0_def eq_sum_def broadcast_shape_def item_at_def expand_index_def upt_rec)

lemma example_conditions:
  "\<forall>e < 10. (\<forall>model. \<exists>acc. test_func (classify example_ops model) (test_batches example_env e) = Inr acc) \<and>
             upload_ack example_env e \<and>
             (\<exists>d \<in> set (tmp_names example_env e). local_fs example_state d = None)"
proof (intro allI impI conjI)
  fix e :: nat and model :: "nat module"
  show "\<exists>acc. test_func (classify example_ops model) (test_batches example_env e) = Inr acc"
    by (rule exI, rule example_accuracy)
next
  fix e :: nat
  show "upload_ack example_env e" by (simp add: example_env_def)
next
  fix e :: nat
  show "\<exists>d \<in> set (tmp_names example_env e). local_fs example_state d = None"
    by (simp add: example_env_def example_state_def)
qed

text \<open>
  Claim C2. A run of \<open>train_loop\<close> that returns has performed exactly 10 epochs, with
  the indices 0 to 9: the model has had the training passes of these epochs, and each
  epoch has made exactly one reporting call, whose metrics are the dict
  \<open>{"acc": acc, "epoch": epoch}\<close> with the accuracy that \<open>test_func\<close> returned in that
  epoch and the epoch's loop index. So the worker (of rank 0 as of any rank) adds 10
  metrics records, in the order of the epochs.
\<close>

theorem train_loop_reports_ten_epochs:
  assumes "train_loop ops env cfg ctx s = Inr (mo', s')"
  shows "mo' = trained ops env ctx (sampler_epoch s) [0..<10]
                 (build_model ops ctx, adam ops (build_model ops ctx)) \<and>
         (\<exists>accs. length accs = 10 \<and>
            records s' = records s @
              map (\<lambda>epoch. (world_rank ctx,
                     [(''acc'', FloatV (accs ! epoch)), (''epoch'', IntV (int epoch))])) [0..<10] \<and>
            (\<forall>epoch < 10.
               test_func
                 (classify ops (fst (trained ops env ctx (sampler_epoch s) [0..<Suc epoch]
                    (build_model ops ctx, adam ops (build_model ops ctx)))))
                 (test_batches env epoch) = Inr (accs ! epoch)))"
proof -
  let ?mo = "(build_model ops ctx, adam ops (build_model ops ctx))"
  from assms have run: "run_epochs ops env cfg ctx [0..<10] (?mo, s) = Inr (mo', s')"
    by (simp add: train_loop_def Let_def)
  from run_epochs_Inr [OF run] obtain accs where
    mo': "mo' = trained ops env ctx (sampler_epoch s) [0..<10] ?mo" and
    len: "length accs = 10" and
    rec: "records s' = records s @
            map (\<lambda>(e, acc). (world_rank ctx, metrics_of acc e)) (zip [0..<10] accs)" and
    accs: "\<forall>i < length [0..<10::nat].
             test_func (classify ops (fst (trained ops env ctx (sampler_epoch s)
                (take (Suc i) [0..<10]) ?mo))) (test_batches env ([0..<10] ! i)) = Inr (accs ! i)"
    by auto
  have rec': "records s' = records s @
              map (\<lambda>epoch. (world_rank ctx,
                     [(''acc'', FloatV (accs ! epoch)), (''epoch'', IntV (int epoch))])) [0..<10]"
    unfolding rec zip_upt_nth [OF len] by (simp add: metrics_of_def)
  have each: "\<forall>epoch < 10.
               test_func (classify ops (fst (trained ops env ctx (sampler_epoch s) [0..<Suc epoch] ?mo)))
                 (test_batches env epoch) = Inr (accs ! epoch)"
  proof (intro allI impI)
    fix epoch :: nat assume e: "epoch < 10"
    then have "take (Suc epoch) [0..<10] = [0..<Suc epoch]" by (simp add: take_upt)
    moreover have "[0..<10] ! epoch = epoch" using e by simp
    ultimately show "test_func (classify ops (fst (trained ops env ctx (sampler_epoch s) [0..<Suc epoch] ?mo)))
                 (test_batches env epoch) = Inr (accs ! epoch)"
      using accs e by (metis length_upt minus_nat.diff_0)
  qed
  from mo' len rec' each show ?thesis by blast
qed

theorem train_loop_reports_ten_epochs_witness:
  "\<exists>mo' s'. train_loop example_ops example_env example_cfg \<lparr>world_rank = 0, world_size = 4\<rparr> example_state
               = Inr (mo', s') \<and>
     records s' = map (\<lambda>epoch. (0, [(''acc'', FloatV (1 / 2)), (''epoch'', IntV (int epoch))])) [0..<10]"
proof -
  let ?ctx = "\<lparr>world_rank = 0, world_size = 4\<rparr>"
  from train_loop_ok [OF example_conditions] obtain mo' s' where
    run: "train_loop example_ops example_env example_cfg ?ctx example_state = Inr (mo', s')" by blast
  from train_loop_reports_ten_epochs [OF run] obtain accs where
    len: "length accs = 10" and
    rec: "records s' = records example_state @
              map (\<lambda>epoch. (world_rank ?ctx,
                     [(''acc'', FloatV (accs ! epoch)), (''epoch'', IntV (int epoch))])) [0..<10]" and
    each: "\<forall>epoch < 10.
               test_func
                 (classify example_ops (fst (trained example_ops example_env ?ctx (sampler_epoch example_state) [0..<Suc epoch]
                    (build_model example_ops ?ctx, adam example_ops (build_model example_ops ?ctx)))))
                 (test_batches example_env epoch) = Inr (accs ! epoch)"
    by blast
  note half = example_accuracy
  from each have "\<forall>epoch < 10. accs ! epoch = 1 / 2"
    unfolding half by simp
  then have "map (\<lambda>epoch. (world_rank ?ctx,
                     [(''acc'', FloatV (accs ! epoch)), (''epoch'', IntV (int epoch))])) [0..<10]
     = map (\<lambda>epoch. (0, [(''acc'', FloatV (1 / 2)), (''epoch'', IntV (int epoch))])) [0..<10]"
    by (intro map_cong) simp_all
  with rec have "records s' = map (\<lambda>epoch. (0, [(''acc'', FloatV (1 / 2)), (''epoch'', IntV (int epoch))])) [0..<10]"
    by (simp add: example_state_def)
  with run show ?thesis by blast
qed

text \<open>
  Claim C3. In a run of \<open>train_loop\<close> by a worker of any group, the metrics of the 10
  epochs are printed exactly when the worker's world rank is 0; a worker of another rank
  prints nothing, and its metrics are all the same in the reporter's record store, under
  its rank.
\<close>

theorem train_loop_prints_on_rank_zero_only:
  assumes "train_loop ops env cfg ctx s = Inr (mo', s')"
  shows "\<exists>ms. length ms = 10 \<and>
           records s' = records s @ map (\<lambda>m. (world_rank ctx, m)) ms \<and>
           stdout s' = stdout s @ (if world_rank ctx = 0 then ms else [])"
proof -
  let ?mo = "(build_model ops ctx, adam ops (build_model ops ctx))"
  from assms have run: "run_epochs ops env cfg ctx [0..<10] (?mo, s) = Inr (mo', s')"
    by (simp add: train_loop_def Let_def)
  from run_epochs_Inr [OF run] obtain accs where
    len: "length accs = 10" and
    rec: "records s' = records s @
            map (\<lambda>(e, acc). (world_rank ctx, metrics_of acc e)) (zip [0..<10] accs)" and
    out: "stdout s' = stdout s @
            (if world_rank ctx = 0 then map (\<lambda>(e, acc). metrics_of acc e) (zip [0..<10] accs) else [])"
    by auto
  let ?ms = "map (\<lambda>(e, acc). metrics_of acc e) (zip [0..<10] accs)"
  have "length ?ms = 10" using len by simp
  moreover have "records s' = records s @ map (\<lambda>m. (world_rank ctx, m)) ?ms"
    unfolding rec by (simp add: case_prod_unfold)
  ultimately show ?thesis using out by blast
qed

theorem train_loop_prints_on_rank_zero_only_witness:
  "\<exists>mo0 s0 mo1 s1.
     train_loop example_ops example_env example_cfg \<lparr>world_rank = 0, world_size = 4\<rparr> example_state
       = Inr (mo0, s0) \<and>
     length (stdout s0) = 10 \<and> map fst (records s0) = replicate 10 0 \<and>
     map snd (records s0) = stdout s0 \<and>
     train_loop example_ops example_env example_cfg \<lparr>world_rank = 1, world_size = 4\<rparr> example_state
       = Inr (mo1, s1) \<and>
     stdout s1 = [] \<and> map fst (records s1) = replicate 10 1"
proof -
  let ?c0 = "\<lparr>world_rank = 0, world_size = 4\<rparr>"
  let ?c1 = "\<lparr>world_rank = 1, world_size = 4\<rparr>"
  from train_loop_ok [OF example_conditions] obtain mo0 s0 where
    run0: "train_loop example_ops example_env example_cfg ?c0 example_state = Inr (mo0, s0)" by blast
  from train_loop_ok [OF example_conditions] obtain mo1 s1 where
    run1: "train_loop example_ops example_env example_cfg ?c1 example_state = Inr (mo1, s1)" by blast
  from train_loop_prints_on_rank_zero_only [OF run0] obtain ms0 where
    l0: "length ms0 = 10" and
    r0: "records s0 = records example_state @ map (\<lambda>m. (world_rank ?c0, m)) ms0" and
    o0: "stdout s0 = stdout example_state @ (if world_rank ?c0 = 0 then ms0 else [])"
    by blast
  from train_loop_prints_on_rank_zero_only [OF run1] obtain ms1 where
    l1: "length ms1 = 10" and
    r1: "records s1 = records example_state @ map (\<lambda>m. (world_rank ?c1, m)) ms1" and
    o1: "stdout s1 = stdout example_state @ (if world_rank ?c1 = 0 then ms1 else [])"
    by blast
  have a: "length (stdout s0) = 10" using l0 o0 by (simp add: example_state_def)
  have b: "map fst (records s0) = replicate 10 0"
    using l0 r0 by (simp add: example_state_def comp_def map_replicate_const)
  have c: "map snd (records s0) = stdout s0"
    using r0 o0 by (simp add: example_state_def comp_def)
  have d: "stdout s1 = []" using o1 by (simp add: example_state_def)
  have e: "map fst (records s1) = replicate 10 1"
    using l1 r1 by (simp add: example_state_def comp_def map_replicate_const)
  show ?thesis
    by (rule exI [of _ mo0], rule exI [of _ s0], rule exI [of _ mo1], rule exI [of _ s1])
       (simp only: run0 run1 a b c d e simp_thms)
qed

end
